theory Spec2Isabelle
  imports Main
begin

section \<open>Values and computations of the host language\<close>

text \<open>
  The library is TypeScript; at run time a value is a JavaScript value. The optional type
  of the library, \<^verbatim>\<open>Option<T> = T | undefined\<close>, and \<^verbatim>\<open>Nullish<T> = T | null | undefined\<close>
  are untagged unions: the absent sentinel \<^verbatim>\<open>undefined\<close> and \<^verbatim>\<open>null\<close> are ordinary values
  that live beside every other value. Every value of the host is \<^verbatim>\<open>undefined\<close>, or
  \<^verbatim>\<open>null\<close>, or a value that is neither; \<open>'a nullish\<close> is that partition, with \<open>'a\<close> the
  type of the values that are neither. The operations that look at the two sentinels take
  and return values of this type.
\<close>

datatype 'a nullish = Undefined | Null | Present 'a

text \<open>
  The values written in the examples: booleans, numbers and strings. \<open>Number\<close> carries the
  integer-valued numbers (exact in the host's doubles below \<open>2 ^ 53\<close>), which is all the
  examples use; \<open>NaN\<close> is the host's not-a-number.
\<close>

datatype literal = Boolean bool | Number int | NaN | String string

text \<open>
  A callback handed to the library is host code: it may change the world it runs in and it
  may throw instead of returning. A computation takes the state of the world and gives
  back either the thrown value (\<open>Inl\<close>) or the returned value (\<open>Inr\<close>), with the state it
  leaves behind. \<open>returns\<close> is \<^verbatim>\<open>return a\<close>, \<open>throws\<close> is \<^verbatim>\<open>throw x\<close>, \<open>andThen m k\<close>
  evaluates \<open>m\<close> and hands its value to \<open>k\<close> (an exception of \<open>m\<close> leaves at once), and
  \<open>tryCatch m h\<close> is \<^verbatim>\<open>try { m } catch (error) { h(error) }\<close>. A callback that never
  returns is not modelled: the operation that called it would never return either.
\<close>

type_synonym ('s, 'x, 'a) eff = "'s \<Rightarrow> ('x + 'a) \<times> 's"

definition returns :: "'a \<Rightarrow> ('s, 'x, 'a) eff" where
  "returns a = (\<lambda>s. (Inr a, s))"

definition throws :: "'x \<Rightarrow> ('s, 'x, 'a) eff" where
  "throws x = (\<lambda>s. (Inl x, s))"

definition andThen :: "('s, 'x, 'a) eff \<Rightarrow> ('a \<Rightarrow> ('s, 'x, 'b) eff) \<Rightarrow> ('s, 'x, 'b) eff" where
  "andThen m k = (\<lambda>s. case m s of (Inl x, s') \<Rightarrow> (Inl x, s') | (Inr a, s') \<Rightarrow> k a s')"

definition tryCatch :: "('s, 'x, 'a) eff \<Rightarrow> ('x \<Rightarrow> ('s, 'x, 'a) eff) \<Rightarrow> ('s, 'x, 'a) eff" where
  "tryCatch m h = (\<lambda>s. case m s of (Inl x, s') \<Rightarrow> h x s' | (Inr a, s') \<Rightarrow> (Inr a, s'))"

text \<open>\<open>completes m s\<close>: run from state \<open>s\<close>, the computation returns; no exception leaves it.\<close>

definition completes :: "('s, 'x, 'a) eff \<Rightarrow> 's \<Rightarrow> bool" where
  "completes m s = (case fst (m s) of Inl x \<Rightarrow> False | Inr a \<Rightarrow> True)"

section \<open>The Result type (result.ts)\<close>

text \<open>
  \<^verbatim>\<open>type Result<T, E> = { ok: true; value: T } | { ok: false; error: E }\<close>.
  The discriminant field \<^verbatim>\<open>ok\<close> is \<open>ok_flag\<close> here (\<open>ok\<close> is the factory function, as in
  the source); \<open>value_of\<close> and \<open>error_of\<close> read the payload fields \<^verbatim>\<open>value\<close> and
  \<^verbatim>\<open>error\<close>, each present in its own variant only.
\<close>

datatype ('t, 'e) result = Ok (value_of: 't) | Err (error_of: 'e)

definition ok_flag :: "('t, 'e) result \<Rightarrow> bool" where
  "ok_flag result = (case result of Ok v \<Rightarrow> True | Err e \<Rightarrow> False)"

definition ok :: "'t \<Rightarrow> ('t, 'e) result" where
  "ok v = Ok v"

definition err :: "'e \<Rightarrow> ('t, 'e) result" where
  "err e = Err e"

definition isOk :: "('t, 'e) result \<Rightarrow> bool" where
  "isOk result = (ok_flag result = True)"

definition isErr :: "('t, 'e) result \<Rightarrow> bool" where
  "isErr result = (ok_flag result = False)"

text \<open>
  \<^verbatim>\<open>unwrap\<close> is the one operation with a \<^verbatim>\<open>throw\<close> statement of its own:
  \<^verbatim>\<open>throw new TypeError(`Result is an error`, { cause: result.error })\<close>.
  The thrown object is kept as its class, its message and its \<^verbatim>\<open>cause\<close> field.
\<close>

datatype 'c exception = TypeError (message: string) (cause: 'c)

definition unwrap :: "('t, 'e) result \<Rightarrow> 'e exception + 't" where
  "unwrap result =
     (if isOk result then Inr (value_of result)
      else Inl (TypeError ''Result is an error'' (error_of result)))"

definition unwrapOr :: "('t, 'e) result \<Rightarrow> 't \<Rightarrow> 't" where
  "unwrapOr result defaultValue = (if isOk result then value_of result else defaultValue)"

definition unwrapOrElse :: "('t, 'e) result \<Rightarrow> ('e \<Rightarrow> ('s, 'x, 't) eff) \<Rightarrow> ('s, 'x, 't) eff" where
  "unwrapOrElse result defaultValue =
     (if isOk result then returns (value_of result) else defaultValue (error_of result))"

definition map_result :: "('t, 'e) result \<Rightarrow> ('t \<Rightarrow> ('s, 'x, 'u) eff) \<Rightarrow> ('s, 'x, ('u, 'e) result) eff" where
  "map_result result fn =
     (if isOk result then andThen (fn (value_of result)) (\<lambda>u. returns (ok u))
      else returns (err (error_of result)))"

definition mapOr :: "('t, 'e) result \<Rightarrow> ('t \<Rightarrow> ('s, 'x, 'u) eff) \<Rightarrow> 'u \<Rightarrow> ('s, 'x, 'u) eff" where
  "mapOr result fn defaultValue =
     (if isOk result then fn (value_of result) else returns defaultValue)"

definition mapOrElse :: "('t, 'e) result \<Rightarrow> ('t \<Rightarrow> ('s, 'x, 'u) eff) \<Rightarrow> ('e \<Rightarrow> ('s, 'x, 'u) eff) \<Rightarrow> ('s, 'x, 'u) eff" where
  "mapOrElse result fn defaultValue =
     (if isOk result then fn (value_of result) else defaultValue (error_of result))"

text \<open>
  \<^verbatim>\<open>flatMap\<close> hands back the failure it was given (\<^verbatim>\<open>: result\<close>); at the result type
  \<^verbatim>\<open>Result<U, E>\<close> that object is the failure with the same \<open>error\<close>.
\<close>

definition flatMap :: "('t, 'e) result \<Rightarrow> ('t \<Rightarrow> ('s, 'x, ('u, 'e) result) eff) \<Rightarrow> ('s, 'x, ('u, 'e) result) eff" where
  "flatMap result transform =
     (if ok_flag result then transform (value_of result) else returns (Err (error_of result)))"

definition mapErr :: "('t, 'e) result \<Rightarrow> ('e \<Rightarrow> ('s, 'x, 'u) eff) \<Rightarrow> ('s, 'x, ('t, 'u) result) eff" where
  "mapErr result fn =
     (if isErr result then andThen (fn (error_of result)) (\<lambda>u. returns (err u))
      else returns (ok (value_of result)))"

text \<open>
  \<^verbatim>\<open>pipe(value, ...fns)\<close>, the implementation behind the typed overloads:
  \<^verbatim>\<open>
  let res = value;
  if (!res.ok) return res;
  for (const fn of fns) {
    res = fn(res.value);
    if (!res.ok) return res;
  }
  return res;
  \<close>
  \<open>pipe_loop res fns\<close> is the \<^verbatim>\<open>for\<close> loop with \<open>fns\<close> the steps still to run; it is entered
  with a successful \<open>res\<close> only, so \<^verbatim>\<open>res.value\<close> is there whenever a step is called. The
  parameter \<^verbatim>\<open>value\<close> is \<open>val\<close> here.
\<close>

fun pipe_loop :: "('t, 'e) result \<Rightarrow> ('t \<Rightarrow> ('s, 'x, ('t, 'e) result) eff) list
    \<Rightarrow> ('s, 'x, ('t, 'e) result) eff" where
  "pipe_loop res [] = returns res"
| "pipe_loop res (fn # fns) =
     andThen (fn (value_of res))
       (\<lambda>res'. if \<not> ok_flag res' then returns res' else pipe_loop res' fns)"

definition pipe :: "('t, 'e) result \<Rightarrow> ('t \<Rightarrow> ('s, 'x, ('t, 'e) result) eff) list
    \<Rightarrow> ('s, 'x, ('t, 'e) result) eff" where
  "pipe val fns = (let res = val in if \<not> ok_flag res then returns res else pipe_loop res fns)"

text \<open>\<^verbatim>\<open>toOption\<close>: the result type \<^verbatim>\<open>Option<T>\<close> is \<^verbatim>\<open>T | undefined\<close>.\<close>

definition toOption :: "('a nullish, 'e) result \<Rightarrow> 'a nullish" where
  "toOption result = (if isOk result then value_of result else Undefined)"

text \<open>
  \<^verbatim>\<open>perform(fn)\<close>: \<^verbatim>\<open>try { return ok(fn()); } catch (error) { return err(error as E); }\<close>.
  The zero-argument \<open>fn\<close> takes \<open>()\<close>.
\<close>

definition perform :: "(unit \<Rightarrow> ('s, 'x, 't) eff) \<Rightarrow> ('s, 'x, ('t, 'x) result) eff" where
  "perform fn =
     tryCatch (andThen (fn ()) (\<lambda>v. returns (ok v))) (\<lambda>error. returns (err error))"

text \<open>
  \<^verbatim>\<open>intoResult(value, error)\<close>. The test \<^verbatim>\<open>error != undefined\<close> is the host's loose
  inequality, false exactly for \<^verbatim>\<open>null\<close> and \<^verbatim>\<open>undefined\<close>; \<^verbatim>\<open>a ?? b\<close> is \<open>b\<close> exactly
  when \<open>a\<close> is \<^verbatim>\<open>null\<close> or \<^verbatim>\<open>undefined\<close>.
\<close>

definition loose_neq_undefined :: "'a nullish \<Rightarrow> bool" where
  "loose_neq_undefined v = (\<not> (v = Null \<or> v = Undefined))"

definition nullish_coalesce :: "'a nullish \<Rightarrow> 'a nullish \<Rightarrow> 'a nullish" where
  "nullish_coalesce a b = (if a = Null \<or> a = Undefined then b else a)"

definition intoResult :: "'a nullish \<Rightarrow> 'b nullish \<Rightarrow> ('a nullish, 'b nullish) result" where
  "intoResult val error =
     (if loose_neq_undefined error then err error else ok (nullish_coalesce val Undefined))"

section \<open>Data-last combinators (result/combinators.ts)\<close>

text \<open>
  Each combinator takes the configuration arguments and returns the function that awaits
  the Result and calls the data-first operation of result.ts. The source gives them the
  names of the operations they wrap; here they carry the suffix \<open>Curried\<close>.
\<close>

definition unwrapOrCurried :: "'t \<Rightarrow> ('t, 'e) result \<Rightarrow> 't" where
  "unwrapOrCurried defaultValue = (\<lambda>result. unwrapOr result defaultValue)"

definition unwrapOrElseCurried :: "('e \<Rightarrow> ('s, 'x, 't) eff) \<Rightarrow> ('t, 'e) result \<Rightarrow> ('s, 'x, 't) eff" where
  "unwrapOrElseCurried fn = (\<lambda>result. unwrapOrElse result fn)"

definition mapCurried :: "('t \<Rightarrow> ('s, 'x, 'u) eff) \<Rightarrow> ('t, 'e) result \<Rightarrow> ('s, 'x, ('u, 'e) result) eff" where
  "mapCurried fn = (\<lambda>result. map_result result fn)"

definition mapOrCurried :: "('t \<Rightarrow> ('s, 'x, 'u) eff) \<Rightarrow> 'u \<Rightarrow> ('t, 'e) result \<Rightarrow> ('s, 'x, 'u) eff" where
  "mapOrCurried fn defaultValue = (\<lambda>result. mapOr result fn defaultValue)"

definition mapOrElseCurried :: "('t \<Rightarrow> ('s, 'x, 'u) eff) \<Rightarrow> ('e \<Rightarrow> ('s, 'x, 'u) eff)
    \<Rightarrow> ('t, 'e) result \<Rightarrow> ('s, 'x, 'u) eff" where
  "mapOrElseCurried fn defaultValue = (\<lambda>result. mapOrElse result fn defaultValue)"

definition flatMapCurried :: "('t \<Rightarrow> ('s, 'x, ('u, 'e) result) eff) \<Rightarrow> ('t, 'e) result
    \<Rightarrow> ('s, 'x, ('u, 'e) result) eff" where
  "flatMapCurried transform = (\<lambda>result. flatMap result transform)"

definition mapErrCurried :: "('e \<Rightarrow> ('s, 'x, 'u) eff) \<Rightarrow> ('t, 'e) result \<Rightarrow> ('s, 'x, ('t, 'u) result) eff" where
  "mapErrCurried fn = (\<lambda>result. mapErr result fn)"

section \<open>The Option constructor (option.ts)\<close>

text \<open>
  Modelled from the spec: \<^verbatim>\<open>option.ts\<close> is not among the sources; only its tests and its
  description are. The specification says of \<^verbatim>\<open>from(value: Nullish<T>)\<close> that it
  ``normalizes both empty representations to absent; non-empty values pass through
  unchanged'', and the test \<^verbatim>\<open>from coalesces null to undefined\<close> expects
  \<^verbatim>\<open>from(null) === undefined\<close>. \<open>from\<close> is a keyword of the proof language, hence the
  suffix.
\<close>

definition from_nullish :: "'a nullish \<Rightarrow> 'a nullish" where
  "from_nullish val = (if val = Null \<or> val = Undefined then Undefined else val)"

section \<open>The steps of the documented pipeline\<close>

text \<open>
  The pipeline of the specification and the README threads \<^verbatim>\<open>ok(10)\<close> through
  \<^verbatim>\<open>x => ok(x + 5)\<close>, \<^verbatim>\<open>x => x > 10 ? ok(x * 2) : err("too small")\<close> and
  \<^verbatim>\<open>x => ok("result: " + x)\<close>. The host operators \<^verbatim>\<open>+\<close>, \<^verbatim>\<open>*\<close> and \<^verbatim>\<open>>\<close> on the values
  of the examples: \<^verbatim>\<open>+\<close> joins the texts of its operands when one of them is a string and
  adds their numbers otherwise; \<^verbatim>\<open>*\<close> and \<^verbatim>\<open>>\<close> work on the numbers of their operands. A
  boolean counts as \<open>0\<close> or \<open>1\<close>, arithmetic on \<open>NaN\<close> is \<open>NaN\<close> and a comparison with \<open>NaN\<close>
  is false. Reading a string as a number (and comparing two strings as texts) is not
  modelled: a string operand of \<^verbatim>\<open>*\<close> or \<^verbatim>\<open>>\<close> counts as \<open>NaN\<close>. The callbacks of the
  pipeline are typed \<^verbatim>\<open>x: number\<close> and never meet that case.
\<close>

fun digits :: "nat \<Rightarrow> string" where
  "digits n =
     (if n < 10 then [char_of (48 + n)] else digits (n div 10) @ [char_of (48 + n mod 10)])"

definition number_text :: "int \<Rightarrow> string" where
  "number_text i = (if i < 0 then CHR ''-'' # digits (nat (- i)) else digits (nat i))"

fun to_text :: "literal \<Rightarrow> string" where
  "to_text (Boolean b) = (if b then ''true'' else ''false'')"
| "to_text (Number n) = number_text n"
| "to_text NaN = ''NaN''"
| "to_text (String s) = s"

fun to_number :: "literal \<Rightarrow> literal" where
  "to_number (Boolean b) = Number (if b then 1 else 0)"
| "to_number (Number n) = Number n"
| "to_number NaN = NaN"
| "to_number (String s) = NaN"

fun is_string :: "literal \<Rightarrow> bool" where
  "is_string (String s) = True"
| "is_string v = False"

fun arith :: "(int \<Rightarrow> int \<Rightarrow> int) \<Rightarrow> literal \<Rightarrow> literal \<Rightarrow> literal" where
  "arith f (Number m) (Number n) = Number (f m n)"
| "arith f a b = NaN"

definition js_add :: "literal \<Rightarrow> literal \<Rightarrow> literal" where
  "js_add a b =
     (if is_string a \<or> is_string b then String (to_text a @ to_text b)
      else arith (+) (to_number a) (to_number b))"

definition js_mul :: "literal \<Rightarrow> literal \<Rightarrow> literal" where
  "js_mul a b = arith (*) (to_number a) (to_number b)"

fun greater :: "literal \<Rightarrow> literal \<Rightarrow> bool" where
  "greater (Number m) (Number n) = (m > n)"
| "greater a b = False"

definition js_gt :: "literal \<Rightarrow> literal \<Rightarrow> bool" where
  "js_gt a b = greater (to_number a) (to_number b)"

definition addFive :: "literal \<Rightarrow> ('s, 'x, (literal, literal) result) eff" where
  "addFive x = returns (ok (js_add x (Number 5)))"

definition doubleIfLarge :: "literal \<Rightarrow> ('s, 'x, (literal, literal) result) eff" where
  "doubleIfLarge x =
     returns (if js_gt x (Number 10) then ok (js_mul x (Number 2)) else err (String ''too small''))"

definition labelled :: "literal \<Rightarrow> ('s, 'x, (literal, literal) result) eff" where
  "labelled x = returns (ok (js_add (String ''result: '') x))"

section \<open>Iterated flatMap\<close>

text \<open>
  The reading of the pipe as a chain of binds:
  \<^verbatim>\<open>flatMap(... flatMap(flatMap(r, f1), f2) ..., fn)\<close>, built from the left, each call
  taking the value of the one before as its subject.
\<close>

definition flatMapChain :: "('t, 'e) result \<Rightarrow> ('t \<Rightarrow> ('s, 'x, ('t, 'e) result) eff) list
    \<Rightarrow> ('s, 'x, ('t, 'e) result) eff" where
  "flatMapChain r fns = foldl (\<lambda>acc fn. andThen acc (\<lambda>res. flatMap res fn)) (returns r) fns"

section \<open>Callbacks that never throw\<close>

text \<open>
  \<open>completing f\<close>: whatever its argument and whatever the state, the callback \<open>f\<close> returns.
\<close>

definition completing :: "('a \<Rightarrow> ('s, 'x, 'b) eff) \<Rightarrow> bool" where
  "completing f = (\<forall>v s. completes (f v) s)"

section \<open>Spies\<close>

text \<open>
  Callbacks in the style of the test suite (\<^verbatim>\<open>x => x * 2\<close>, \<^verbatim>\<open>e => e.length\<close>,
  \<^verbatim>\<open>() => 42\<close>, \<^verbatim>\<open>() => { throw "boom" }\<close>) that also count their invocations: the state
  is the number of calls made so far.
\<close>

definition countedNext :: "int \<Rightarrow> (nat, unit, (int, string) result) eff" where
  "countedNext x = (\<lambda>calls. (Inr (ok (x + 1)), Suc calls))"

definition countedStop :: "int \<Rightarrow> (nat, unit, (int, string) result) eff" where
  "countedStop x = (\<lambda>calls. (Inr (err ''stop''), Suc calls))"

definition countedDouble :: "int \<Rightarrow> (nat, unit, int) eff" where
  "countedDouble x = (\<lambda>calls. (Inr (x * 2), Suc calls))"

definition countedLength :: "string \<Rightarrow> (nat, unit, int) eff" where
  "countedLength e = (\<lambda>calls. (Inr (int (length e)), Suc calls))"

definition answer :: "unit \<Rightarrow> (nat, literal, int) eff" where
  "answer u = (\<lambda>calls. (Inr 42, Suc calls))"

definition thrower :: "unit \<Rightarrow> (nat, literal, int) eff" where
  "thrower u = (\<lambda>calls. (Inl (String ''boom''), Suc calls))"

section \<open>Basic facts\<close>

declare digits.simps [simp del]

lemma ok_flag_simps [simp]: "ok_flag (Ok v) = True" "ok_flag (Err e) = False"
  by (simp_all add: ok_flag_def)

lemma isOk_simps [simp]: "isOk (Ok v) = True" "isOk (Err e) = False"
  by (simp_all add: isOk_def)

lemma isErr_simps [simp]: "isErr (Ok v) = False" "isErr (Err e) = True"
  by (simp_all add: isErr_def)

lemma andThen_returns [simp]: "andThen (returns a) k = k a"
  by (simp add: andThen_def returns_def)

lemma andThen_throws [simp]: "andThen (throws x) k = throws x"
  by (simp add: andThen_def throws_def)

lemma andThen_returns_right [simp]: "andThen m returns = m"
  by (auto simp: andThen_def returns_def fun_eq_iff split: prod.splits sum.splits)

lemma andThen_assoc: "andThen (andThen m f) g = andThen m (\<lambda>a. andThen (f a) g)"
  by (auto simp: andThen_def fun_eq_iff split: prod.splits sum.splits)

lemma andThen_apply:
  "andThen m k s = (case m s of (Inl x, s') \<Rightarrow> (Inl x, s') | (Inr a, s') \<Rightarrow> k a s')"
  by (simp add: andThen_def)

lemma returns_apply: "returns a s = (Inr a, s)"
  by (simp add: returns_def)

lemma throws_apply: "throws x s = (Inl x, s)"
  by (simp add: throws_def)

lemma flatMap_Ok [simp]: "flatMap (Ok v) transform = transform v"
  by (simp add: flatMap_def)

lemma flatMap_Err [simp]: "flatMap (Err e) transform = returns (Err e)"
  by (simp add: flatMap_def)

lemma completes_returns [simp]: "completes (returns a) s"
  by (simp add: completes_def returns_def)

lemma completes_andThen:
  assumes "completes m s" and "\<And>a s'. completes (k a) s'"
  shows "completes (andThen m k) s"
proof (cases "m s")
  case (Pair out s')
  show ?thesis
  proof (cases out)
    case (Inl x)
    with Pair assms(1) show ?thesis by (simp add: completes_def)
  next
    case (Inr a)
    with Pair assms(2) [of a s'] show ?thesis by (simp add: completes_def andThen_apply)
  qed
qed

lemma completingD: "completing f \<Longrightarrow> completes (f v) s"
  by (simp add: completing_def)

subsection \<open>The loop of pipe\<close>

lemma pipe_Err: "pipe (Err e) fns = returns (Err e)"
  by (simp add: pipe_def)

lemma pipe_Nil: "pipe r [] = returns r"
  by (simp add: pipe_def)

lemma pipe_Ok_Cons: "pipe (Ok v) (fn # fns) = andThen (fn v) (\<lambda>r. pipe r fns)"
  by (simp add: pipe_def)

text \<open>Running \<open>fs\<close> and then \<open>gs\<close> is running \<open>gs\<close> on what \<open>fs\<close> left.\<close>

lemma pipe_append: "pipe r (fs @ gs) = andThen (pipe r fs) (\<lambda>r'. pipe r' gs)"
proof (induction fs arbitrary: r)
  case Nil
  show ?case by (simp add: pipe_Nil)
next
  case (Cons f fs r)
  show ?case
  proof (cases r)
    case (Ok v)
    then show ?thesis by (simp add: pipe_Ok_Cons Cons.IH andThen_assoc)
  next
    case (Err e)
    then show ?thesis by (simp add: pipe_Err)
  qed
qed

lemma pipe_single: "pipe r [f] = flatMap r f"
  by (cases r) (simp_all add: pipe_Ok_Cons pipe_Err pipe_Nil [abs_def])

lemma pipe_snoc: "pipe r (fns @ [f]) = andThen (pipe r fns) (\<lambda>res. flatMap res f)"
  by (simp add: pipe_append pipe_single)

lemma number_text_30: "number_text 30 = ''30''"
  by code_simp

lemma pipeline_example:
  "pipe (ok (Number 10)) [addFive, doubleIfLarge, labelled] = returns (ok (String ''result: 30''))"
  by (simp add: ok_def pipe_Ok_Cons pipe_Nil addFive_def doubleIfLarge_def labelled_def
      js_add_def js_mul_def js_gt_def number_text_30)

subsection \<open>Operations complete when their callbacks do\<close>

lemma unwrapOrElse_completes: "completing d \<Longrightarrow> completes (unwrapOrElse r d) s"
  by (cases r) (simp_all add: unwrapOrElse_def completingD)

lemma map_completes: "completing f \<Longrightarrow> completes (map_result r f) s"
  by (cases r) (simp_all add: map_result_def completingD completes_andThen)

lemma mapOr_completes: "completing f \<Longrightarrow> completes (mapOr r f u) s"
  by (cases r) (simp_all add: mapOr_def completingD)

lemma mapOrElse_completes:
  "completing f \<Longrightarrow> completing d \<Longrightarrow> completes (mapOrElse r f d) s"
  by (cases r) (simp_all add: mapOrElse_def completingD)

lemma flatMap_completes: "completing t \<Longrightarrow> completes (flatMap r t) s"
  by (cases r) (simp_all add: completingD)

lemma mapErr_completes: "completing g \<Longrightarrow> completes (mapErr r g) s"
  by (cases r) (simp_all add: mapErr_def completingD completes_andThen)

lemma pipe_completes: "\<forall>fn \<in> set fns. completing fn \<Longrightarrow> completes (pipe r fns) s"
proof (induction fns arbitrary: r s)
  case Nil
  show ?case by (simp add: pipe_Nil)
next
  case (Cons fn fns r s)
  have rest: "completes (pipe r' fns) s'" for r' s'
    using Cons by simp
  show ?case
  proof (cases r)
    case (Ok v)
    have "completes (fn v) s"
      using Cons.prems by (simp add: completingD)
    then have "completes (andThen (fn v) (\<lambda>r. pipe r fns)) s"
      using rest by (rule completes_andThen)
    then show ?thesis using Ok by (simp add: pipe_Ok_Cons)
  next
    case (Err e)
    then show ?thesis by (simp add: pipe_Err)
  qed
qed

lemma perform_apply:
  "perform fn s =
     (case fn () s of (Inl e, s') \<Rightarrow> (Inr (err e), s') | (Inr v, s') \<Rightarrow> (Inr (ok v), s'))"
  by (simp add: perform_def tryCatch_def andThen_apply returns_apply
      split: prod.splits sum.splits)

lemma perform_completes: "completes (perform fn) s"
  by (simp add: perform_apply completes_def split: prod.splits sum.splits)

lemma counted_completing:
  "completing countedNext" "completing countedStop" "completing countedDouble"
  "completing countedLength"
  by (simp_all add: completing_def completes_def countedNext_def countedStop_def
      countedDouble_def countedLength_def)

section \<open>Claims about result.ts\<close>

subsection \<open>pipe\<close>

text \<open>
  Claim C1. Whatever the error \<open>e\<close> and the steps \<open>fns\<close>, \<^verbatim>\<open>pipe(err(e), ...fns)\<close> returns
  \<open>err e\<close> and leaves the state as it found it: no step is invoked, whatever the steps
  would have done or thrown. Started from \<open>ok v\<close>, pipe with no step returns \<open>ok v\<close>; with
  steps it calls the first on \<open>v\<close> and carries on from its result with the steps that
  remain, so the steps run in order. When a prefix \<open>fs\<close> of the steps ends in a success
  \<open>ok w\<close>, the steps \<open>gs\<close> after it run from \<open>w\<close>; when it ends in a failure, pipe returns
  that failure in the state the prefix left, whatever \<open>gs\<close> is: the remaining steps are
  skipped. The documented pipeline from \<^verbatim>\<open>ok(10)\<close> yields \<^verbatim>\<open>ok("result: 30")\<close>.
\<close>

theorem pipe_short_circuit:
  "pipe (err e) fns s = (Inr (err e), s)
   \<and> pipe (ok v) [] s = (Inr (ok v), s)
   \<and> pipe (ok v) (fn # fns) s
       = (case fn v s of (Inl x, s') \<Rightarrow> (Inl x, s') | (Inr r, s') \<Rightarrow> pipe r fns s')
   \<and> (pipe (ok v) fs s = (Inr (ok w), s1) \<longrightarrow> pipe (ok v) (fs @ gs) s = pipe (ok w) gs s1)
   \<and> (pipe (ok v) fs s = (Inr (err e'), s1) \<longrightarrow> pipe (ok v) (fs @ gs) s = (Inr (err e'), s1))
   \<and> pipe (ok (Number 10)) [addFive, doubleIfLarge, labelled] s
       = (Inr (ok (String ''result: 30'')), s)"
proof (intro conjI impI)
  show "pipe (err e) fns s = (Inr (err e), s)"
    by (simp add: err_def pipe_Err returns_apply)
  show "pipe (ok v) [] s = (Inr (ok v), s)"
    by (simp add: pipe_Nil returns_apply)
  show "pipe (ok v) (fn # fns) s
       = (case fn v s of (Inl x, s') \<Rightarrow> (Inl x, s') | (Inr r, s') \<Rightarrow> pipe r fns s')"
    by (simp add: ok_def pipe_Ok_Cons andThen_apply)
  show "pipe (ok v) (fs @ gs) s = pipe (ok w) gs s1" if "pipe (ok v) fs s = (Inr (ok w), s1)"
    using that by (simp add: pipe_append andThen_apply)
  show "pipe (ok v) (fs @ gs) s = (Inr (err e'), s1)" if "pipe (ok v) fs s = (Inr (err e'), s1)"
    using that by (simp add: pipe_append andThen_apply err_def pipe_Err returns_apply)
  show "pipe (ok (Number 10)) [addFive, doubleIfLarge, labelled] s
       = (Inr (ok (String ''result: 30'')), s)"
    by (simp add: pipeline_example returns_apply)
qed

text \<open>
  With counting steps: after one successful step the two further steps run (three calls);
  after a step that fails, the two further steps are not called (the count stays at two).
\<close>

theorem pipe_short_circuit_witness:
  "pipe (ok 1) [countedNext] 0 = (Inr (ok 2), 1)
   \<and> pipe (ok 1) ([countedNext] @ [countedNext, countedNext]) 0 = (Inr (ok 4), 3)
   \<and> pipe (ok 1) [countedNext, countedStop] 0 = (Inr (err ''stop''), 2)
   \<and> pipe (ok 1) ([countedNext, countedStop] @ [countedNext, countedNext]) 0
       = (Inr (err ''stop''), 2)"
proof -
  have one: "pipe (ok 1) [countedNext] 0 = (Inr (ok 2), 1)"
    by (simp add: ok_def pipe_Ok_Cons pipe_Nil andThen_apply countedNext_def returns_apply)
  have two: "pipe (ok 2) [countedNext, countedNext] (1::nat) = (Inr (ok 4), 3)"
    by (simp add: ok_def pipe_Ok_Cons pipe_Nil andThen_apply countedNext_def returns_apply)
  have stop: "pipe (ok 1) [countedNext, countedStop] 0 = (Inr (err ''stop''), 2)"
    by (simp add: ok_def err_def pipe_Ok_Cons pipe_Nil andThen_apply countedNext_def
        countedStop_def returns_apply)
  have go_on: "pipe (ok 1) ([countedNext] @ [countedNext, countedNext]) 0
      = pipe (ok 2) [countedNext, countedNext] 1"
    using one pipe_short_circuit [where v = 1 and fs = "[countedNext]" and s = 0 and w = 2
          and ?s1.0 = 1 and gs = "[countedNext, countedNext]" and e = "''stop''"
          and e' = "''stop''" and fn = countedNext and fns = "[]"]
    by blast
  have skipped: "pipe (ok 1) ([countedNext, countedStop] @ [countedNext, countedNext]) 0
      = (Inr (err ''stop''), 2)"
    using stop pipe_short_circuit [where v = 1 and fs = "[countedNext, countedStop]" and s = 0
          and e' = "''stop''" and ?s1.0 = 2 and gs = "[countedNext, countedNext]"
          and e = "''stop''" and w = 2 and fn = countedNext and fns = "[]"]
    by blast
  from one two stop go_on skipped show ?thesis
    by simp
qed

text \<open>
  Claim C10. The Result pipe is the iterated \<^verbatim>\<open>flatMap\<close>: for every Result \<open>r\<close> and every
  list of steps, \<^verbatim>\<open>pipe(r, f1, ..., fn)\<close> is
  \<^verbatim>\<open>flatMap(... flatMap(flatMap(r, f1), f2) ..., fn)\<close>; with no step, pipe returns \<open>r\<close>
  unchanged.
\<close>

theorem pipe_is_iterated_flatMap:
  "pipe r fns = flatMapChain r fns \<and> pipe r [] = returns r"
proof
  show "pipe r fns = flatMapChain r fns"
  proof (induction fns rule: rev_induct)
    case Nil
    show ?case by (simp add: pipe_Nil flatMapChain_def)
  next
    case (snoc f fns)
    then show ?case by (simp add: pipe_snoc flatMapChain_def)
  qed
  show "pipe r [] = returns r"
    by (rule pipe_Nil)
qed

subsection \<open>map\<close>

text \<open>
  Claim C2. \<^verbatim>\<open>map(ok(x), f)\<close> evaluates \<open>f x\<close> and returns \<open>ok\<close> of its value, so for a
  callback that just computes \<open>g\<close> it is \<open>ok (g x)\<close>; \<^verbatim>\<open>map(err(e), f)\<close> returns \<open>err e\<close> and
  leaves the state as it found it, whatever \<open>f\<close> would have done or thrown: \<open>f\<close> is not
  invoked on the failure branch, and the result does not depend on \<open>f\<close>.
\<close>

theorem map_ok_err:
  "map_result (ok x) f = andThen (f x) (\<lambda>u. returns (ok u))
   \<and> map_result (ok x) (\<lambda>v. returns (g v)) = returns (ok (g x))
   \<and> map_result (err e) f s = (Inr (err e), s)
   \<and> map_result (err e) f = map_result (err e) f'"
proof (intro conjI)
  show "map_result (ok x) f = andThen (f x) (\<lambda>u. returns (ok u))"
    by (simp add: map_result_def ok_def)
  show "map_result (ok x) (\<lambda>v. returns (g v)) = returns (ok (g x))"
    by (simp add: map_result_def ok_def)
  show "map_result (err e) f s = (Inr (err e), s)"
    by (simp add: map_result_def err_def returns_apply)
  show "map_result (err e) f = map_result (err e) f'"
    by (simp add: map_result_def err_def)
qed

subsection \<open>flatMap\<close>

text \<open>
  Claim C3. \<^verbatim>\<open>flatMap\<close> is associative: for every Result \<open>m\<close> and Result-returning \<open>f\<close>
  and \<open>g\<close>, \<^verbatim>\<open>flatMap(flatMap(m, f), g)\<close> equals \<^verbatim>\<open>flatMap(m, x => flatMap(f(x), g))\<close>.
  In the nested call the inner \<^verbatim>\<open>flatMap\<close> is evaluated first and its value is the
  subject of the outer one.
\<close>

theorem flatMap_assoc:
  "andThen (flatMap m f) (\<lambda>r. flatMap r g)
     = flatMap m (\<lambda>x. andThen (f x) (\<lambda>r. flatMap r g))"
proof (cases m)
  case (Ok v)
  then show ?thesis by simp
next
  case (Err e)
  have "andThen (returns (Err e)) (\<lambda>r. flatMap r g) = returns (Err e)"
    by simp
  with Err show ?thesis by simp
qed

subsection \<open>unwrap\<close>

text \<open>
  Claim C4. For all \<open>x\<close>, \<^verbatim>\<open>unwrap(ok(x))\<close> returns \<open>x\<close>; for all \<open>e\<close>, \<^verbatim>\<open>unwrap(err(e))\<close>
  raises a \<^verbatim>\<open>TypeError\<close> whose \<^verbatim>\<open>cause\<close> is \<open>e\<close>. No other operation of result.ts raises:
  \<^verbatim>\<open>unwrapOrElse\<close>, \<^verbatim>\<open>map\<close>, \<^verbatim>\<open>mapOr\<close>, \<^verbatim>\<open>mapOrElse\<close>, \<^verbatim>\<open>flatMap\<close>, \<^verbatim>\<open>mapErr\<close> and
  \<^verbatim>\<open>pipe\<close> return whenever the callbacks they are given return, and \<^verbatim>\<open>perform\<close> returns
  even when its callback throws. The remaining operations (\<^verbatim>\<open>ok\<close>, \<^verbatim>\<open>err\<close>, \<^verbatim>\<open>isOk\<close>,
  \<^verbatim>\<open>isErr\<close>, \<^verbatim>\<open>unwrapOr\<close>, \<^verbatim>\<open>toOption\<close>, \<^verbatim>\<open>intoResult\<close>) call nothing and contain no
  \<^verbatim>\<open>throw\<close>; they are plain functions here. \<^verbatim>\<open>performAsync\<close> hands back a promise and
  is not part of this development.
\<close>

theorem unwrap_alone_raises:
  "unwrap (ok x) = Inr x
   \<and> unwrap (err e) = Inl (TypeError ''Result is an error'' e)
   \<and> (completing d \<longrightarrow> completes (unwrapOrElse r d) s)
   \<and> (completing f \<longrightarrow> completes (map_result r f) s)
   \<and> (completing f \<longrightarrow> completes (mapOr r f u) s)
   \<and> (completing f \<and> completing d' \<longrightarrow> completes (mapOrElse r f d') s)
   \<and> (completing t \<longrightarrow> completes (flatMap r t) s)
   \<and> (completing g \<longrightarrow> completes (mapErr r g) s)
   \<and> ((\<forall>fn \<in> set fns. completing fn) \<longrightarrow> completes (pipe r' fns) s)
   \<and> completes (perform fn0) s"
proof (intro conjI impI)
  show "unwrap (ok x) = Inr x"
    by (simp add: unwrap_def ok_def)
  show "unwrap (err e) = Inl (TypeError ''Result is an error'' e)"
    by (simp add: unwrap_def err_def)
  show "completes (mapOrElse r f d') s" if "completing f \<and> completing d'"
    using that by (simp add: mapOrElse_completes)
qed (simp_all add: unwrapOrElse_completes map_completes mapOr_completes flatMap_completes
      mapErr_completes pipe_completes perform_completes)

text \<open>
  With the counting callbacks, which all return: on the failure \<^verbatim>\<open>err("boom")\<close> and on the
  success \<^verbatim>\<open>ok(21)\<close> every operation returns, \<^verbatim>\<open>perform\<close> of a throwing function included,
  and \<^verbatim>\<open>unwrap\<close> alone hands out an exception.
\<close>

theorem unwrap_alone_raises_witness:
  "completing countedLength \<and> completing countedDouble \<and> completing countedNext
   \<and> completing countedStop
   \<and> unwrap (ok 21 :: (int, string) result) = Inr 21
   \<and> unwrap (err ''boom'' :: (int, string) result)
       = Inl (TypeError ''Result is an error'' ''boom'')
   \<and> completes (unwrapOrElse (err ''boom'') countedLength) 0
   \<and> completes (map_result (ok 21 :: (int, string) result) countedDouble) 0
   \<and> completes (mapOr (ok 21 :: (int, string) result) countedDouble 0) 0
   \<and> completes (mapOrElse (err ''boom'') countedDouble countedLength) 0
   \<and> completes (flatMap (ok 21) countedNext) 0
   \<and> completes (mapErr (err ''boom'' :: (int, string) result) countedLength) 0
   \<and> completes (pipe (ok 1) [countedNext, countedStop]) 0
   \<and> completes (perform thrower) 0"
proof -
  have steps: "\<forall>fn \<in> set [countedNext, countedStop]. completing fn"
    by (simp add: counted_completing)
  have on_err:
    "unwrap (err ''boom'' :: (int, string) result)
       = Inl (TypeError ''Result is an error'' ''boom'')
     \<and> completes (unwrapOrElse (err ''boom'') countedLength) 0
     \<and> completes (mapOrElse (err ''boom'') countedDouble countedLength) 0
     \<and> completes (mapErr (err ''boom'' :: (int, string) result) countedLength) 0
     \<and> completes (pipe (ok 1) [countedNext, countedStop]) 0
     \<and> completes (perform thrower) 0"
    using counted_completing steps
      unwrap_alone_raises [where x = 21 and e = "''boom''" and d = countedLength
        and r = "err ''boom''" and s = 0 and f = countedDouble and u = 0
        and d' = countedLength and t = countedNext and g = countedLength
        and fns = "[countedNext, countedStop]" and r' = "ok 1" and ?fn0.0 = thrower]
    by blast
  have on_ok:
    "unwrap (ok 21 :: (int, string) result) = Inr 21
     \<and> completes (map_result (ok 21 :: (int, string) result) countedDouble) 0
     \<and> completes (mapOr (ok 21 :: (int, string) result) countedDouble 0) 0
     \<and> completes (flatMap (ok 21) countedNext) 0"
    using counted_completing steps
      unwrap_alone_raises [where x = 21 and e = "''boom''" and d = countedLength
        and r = "ok 21" and s = 0 and f = countedDouble and u = 0
        and d' = countedLength and t = countedNext and g = countedLength
        and fns = "[countedNext, countedStop]" and r' = "ok 1" and ?fn0.0 = thrower]
    by blast
  from counted_completing steps on_err on_ok show ?thesis
    by blast
qed

subsection \<open>perform\<close>

text \<open>
  Claim C5. For every zero-argument \<open>fn\<close>: when \<open>fn\<close> returns \<open>v\<close>, \<^verbatim>\<open>perform(fn)\<close> returns
  \<open>ok v\<close>; when \<open>fn\<close> throws \<open>e\<close>, whatever value \<open>e\<close> is, \<^verbatim>\<open>perform(fn)\<close> returns \<open>err e\<close>
  with exactly that value; in both cases the effects of \<open>fn\<close> stay, and no exception leaves
  \<^verbatim>\<open>perform\<close>.
\<close>

theorem perform_captures:
  "(fn () s = (Inr v, s') \<longrightarrow> perform fn s = (Inr (ok v), s'))
   \<and> (fn () s = (Inl e, s') \<longrightarrow> perform fn s = (Inr (err e), s'))
   \<and> completes (perform fn) s"
proof (intro conjI impI)
  show "perform fn s = (Inr (ok v), s')" if "fn () s = (Inr v, s')"
    using that by (simp add: perform_apply)
  show "perform fn s = (Inr (err e), s')" if "fn () s = (Inl e, s')"
    using that by (simp add: perform_apply)
  show "completes (perform fn) s"
    by (rule perform_completes)
qed

text \<open>
  \<^verbatim>\<open>perform(() => 42)\<close> is \<^verbatim>\<open>ok(42)\<close>, and \<^verbatim>\<open>perform(() => { throw "boom" })\<close>, which
  throws a string and not an \<^verbatim>\<open>Error\<close>, is \<^verbatim>\<open>err("boom")\<close>; each function ran once.
\<close>

theorem perform_captures_witness:
  "answer () 0 = (Inr 42, 1) \<and> perform answer 0 = (Inr (ok 42), 1)
   \<and> thrower () 0 = (Inl (String ''boom''), 1)
   \<and> perform thrower 0 = (Inr (err (String ''boom'')), 1)"
proof -
  have a: "answer () 0 = (Inr 42, 1)"
    by (simp add: answer_def)
  have t: "thrower () 0 = (Inl (String ''boom''), 1)"
    by (simp add: thrower_def)
  have "perform answer 0 = (Inr (ok 42), 1)"
    using a perform_captures [where fn = answer and s = 0 and v = 42 and s' = 1 and e = NaN]
    by blast
  moreover have "perform thrower 0 = (Inr (err (String ''boom'')), 1)"
    using t perform_captures [where fn = thrower and s = 0 and v = 0 and s' = 1
        and e = "String ''boom''"]
    by blast
  ultimately show ?thesis
    using a t by simp
qed

subsection \<open>intoResult\<close>

text \<open>
  Claim C6. For every value \<open>v\<close> and error \<open>e\<close>: when \<open>e\<close> is present (neither \<^verbatim>\<open>null\<close> nor
  \<^verbatim>\<open>undefined\<close>), \<^verbatim>\<open>intoResult(v, e)\<close> is \<open>err e\<close>, whatever \<open>v\<close> is; otherwise it is \<open>ok\<close> of
  \<open>v\<close> with \<^verbatim>\<open>null\<close> collapsed to \<^verbatim>\<open>undefined\<close>; so with both arguments absent it is a
  success carrying \<^verbatim>\<open>undefined\<close>.
\<close>

theorem intoResult_policy:
  "(e \<noteq> Null \<and> e \<noteq> Undefined \<longrightarrow> intoResult v e = err e)
   \<and> (e = Null \<or> e = Undefined \<longrightarrow> intoResult v e = ok (if v = Null then Undefined else v))
   \<and> ((v = Null \<or> v = Undefined) \<and> (e = Null \<or> e = Undefined)
        \<longrightarrow> intoResult v e = ok Undefined)"
proof (intro conjI impI)
  show "intoResult v e = err e" if "e \<noteq> Null \<and> e \<noteq> Undefined"
    using that by (simp add: intoResult_def loose_neq_undefined_def)
  show "intoResult v e = ok (if v = Null then Undefined else v)" if "e = Null \<or> e = Undefined"
    using that by (auto simp: intoResult_def loose_neq_undefined_def nullish_coalesce_def)
  show "intoResult v e = ok Undefined"
    if "(v = Null \<or> v = Undefined) \<and> (e = Null \<or> e = Undefined)"
    using that by (auto simp: intoResult_def loose_neq_undefined_def nullish_coalesce_def)
qed

theorem intoResult_policy_witness:
  "intoResult (Present (Number 1)) (Present (String ''denied'')) = err (Present (String ''denied''))
   \<and> intoResult (Present (Number 1)) (Undefined :: literal nullish) = ok (Present (Number 1))
   \<and> intoResult (Null :: literal nullish) (Null :: literal nullish) = ok Undefined"
proof -
  let ?denied = "Present (String ''denied'')"
  have "?denied \<noteq> Null \<and> ?denied \<noteq> Undefined"
    by simp
  then have present: "intoResult (Present (Number 1)) ?denied = err ?denied"
    using intoResult_policy [where v = "Present (Number 1)" and e = ?denied] by blast
  have "intoResult (Present (Number 1)) (Undefined :: literal nullish)
      = ok (if Present (Number 1) = Null then Undefined else Present (Number 1))"
    using intoResult_policy [where v = "Present (Number 1)" and e = "Undefined :: literal nullish"]
    by blast
  then have absent: "intoResult (Present (Number 1)) (Undefined :: literal nullish)
      = ok (Present (Number 1))"
    by simp
  have both: "intoResult (Null :: literal nullish) (Null :: literal nullish) = ok Undefined"
    using intoResult_policy [where v = "Null :: literal nullish" and e = "Null :: literal nullish"]
    by blast
  from present absent both show ?thesis
    by simp
qed

subsection \<open>toOption\<close>

text \<open>
  Claim C8. \<^verbatim>\<open>toOption\<close> projects a Result to an Option and discards the error: for all
  \<open>x\<close>, \<^verbatim>\<open>toOption(ok(x))\<close> is \<open>x\<close>, and for all \<open>e\<close>, \<^verbatim>\<open>toOption(err(e))\<close> is \<^verbatim>\<open>undefined\<close>.
\<close>

theorem toOption_projects:
  "toOption (ok x) = x \<and> toOption (err e) = Undefined"
  by (simp add: toOption_def ok_def err_def)

section \<open>Claims about result/combinators.ts\<close>

text \<open>
  Claim C7. For each data-first operation that takes a subject and configuration arguments
  (\<^verbatim>\<open>unwrapOr\<close>, \<^verbatim>\<open>unwrapOrElse\<close>, \<^verbatim>\<open>map\<close>, \<^verbatim>\<open>mapOr\<close>, \<^verbatim>\<open>mapOrElse\<close>, \<^verbatim>\<open>flatMap\<close>,
  \<^verbatim>\<open>mapErr\<close>), the curried form applied to the arguments and then to the subject is the
  operation applied to the subject and the arguments, for all subjects and arguments.
\<close>

theorem curried_forms:
  "unwrapOrCurried dv r = unwrapOr r dv
   \<and> unwrapOrElseCurried d r = unwrapOrElse r d
   \<and> mapCurried f r = map_result r f
   \<and> mapOrCurried f u r = mapOr r f u
   \<and> mapOrElseCurried f d' r = mapOrElse r f d'
   \<and> flatMapCurried t r = flatMap r t
   \<and> mapErrCurried g r = mapErr r g"
  unfolding unwrapOrCurried_def unwrapOrElseCurried_def mapCurried_def mapOrCurried_def
    mapOrElseCurried_def flatMapCurried_def mapErrCurried_def
  by (intro conjI refl)

section \<open>Claims about option.ts\<close>

text \<open>
  Claim C9. \<^verbatim>\<open>Option.from\<close> turns \<^verbatim>\<open>null\<close> into \<^verbatim>\<open>undefined\<close> and is the identity on every
  other input: \<^verbatim>\<open>from(null)\<close> is \<^verbatim>\<open>undefined\<close>, and \<^verbatim>\<open>from(x)\<close> is \<open>x\<close> for every \<open>x\<close> that
  is not \<^verbatim>\<open>null\<close>, the falsy values \<^verbatim>\<open>0\<close>, \<^verbatim>\<open>false\<close> and the empty string included.
\<close>

theorem from_nullish_normalizes:
  "from_nullish (Null :: 'a nullish) = Undefined
   \<and> ((x :: 'a nullish) \<noteq> Null \<longrightarrow> from_nullish x = x)
   \<and> from_nullish (Present (Number 0)) = Present (Number 0)
   \<and> from_nullish (Present (Boolean False)) = Present (Boolean False)
   \<and> from_nullish (Present (String [])) = Present (String [])"
  by (simp add: from_nullish_def)

theorem from_nullish_normalizes_witness:
  "Present (Number 42) \<noteq> Null \<and> from_nullish (Present (Number 42)) = Present (Number 42)
   \<and> (Undefined :: literal nullish) \<noteq> Null
   \<and> from_nullish (Undefined :: literal nullish) = Undefined"
  using from_nullish_normalizes [where x = "Present (Number 42)"]
    from_nullish_normalizes [where x = "Undefined :: literal nullish"]
  by simp

end
